theory Spec2Isabelle
  imports Main "HOL-Library.AList"
begin

section \<open>JavaScript strings\<close>

text \<open>
  A JavaScript string is modelled as a \<^typ>\<open>string\<close>: a list of characters with code
  points 0..255. That is what Node's HTTP parser hands over for header names and values
  (they are decoded as Latin-1). The operations that the adapters apply to URL parts
  (\<open>split\<close>, \<open>join\<close>, \<open>indexOf\<close>, \<open>substring\<close>, \<open>replace\<close>) never look at a
  character other than to compare it with an ASCII one.
\<close>

text \<open>\<open>s.startsWith(p)\<close>\<close>

definition startsWith :: "string \<Rightarrow> string \<Rightarrow> bool" where
  "startsWith s p = (take (length p) s = p)"

text \<open>\<open>s.substring(n)\<close> for \<open>0 \<le> n\<close>: the characters from index \<open>n\<close> on.\<close>

definition substring :: "string \<Rightarrow> nat \<Rightarrow> string" where
  "substring s n = drop n s"

text \<open>
  \<open>s.toLowerCase()\<close> on code points 0..255: \<open>A\<close>..\<open>Z\<close> (65..90) and the Latin-1
  capitals 192..222 other than the multiplication sign 215 move up by 32.
\<close>

definition toLowerChar :: "char \<Rightarrow> char" where
  "toLowerChar c =
     (let n = (of_char c :: nat)
      in if (65 \<le> n \<and> n \<le> 90) \<or> (192 \<le> n \<and> n \<le> 222 \<and> n \<noteq> 215)
         then char_of (n + 32) else c)"

definition toLowerCase :: "string \<Rightarrow> string" where
  "toLowerCase s = map toLowerChar s"

text \<open>
  \<open>s.trim()\<close>: white space and line terminators are removed at both ends. Among the
  code points 0..255 these are TAB, LF, VT, FF, CR, SPACE and NBSP (160).
\<close>

definition isWhiteSpace :: "char \<Rightarrow> bool" where
  "isWhiteSpace c = ((of_char c :: nat) \<in> {9, 10, 11, 12, 13, 32, 160})"

definition trim :: "string \<Rightarrow> string" where
  "trim s = rev (dropWhile isWhiteSpace (rev (dropWhile isWhiteSpace s)))"

text \<open>
  \<open>s.split(sep)\<close> for a one-character separator: the result is never empty
  (\<open>"".split("/")\<close> is \<open>[""]\<close>).
\<close>

fun split :: "string \<Rightarrow> char \<Rightarrow> string list" where
  "split [] sep = [] # []"
| "split (c # cs) sep =
     (let r = split cs sep in if c = sep then [] # r else (c # hd r) # tl r)"

text \<open>\<open>parts.join(sep)\<close>\<close>

fun join :: "string list \<Rightarrow> string \<Rightarrow> string" where
  "join [] sep = []"
| "join [x] sep = x"
| "join (x # y # ys) sep = x @ sep @ join (y # ys) sep"

text \<open>\<open>s.indexOf(c)\<close> for a one-character needle: \<open>-1\<close> when \<open>c\<close> does not occur.\<close>

fun indexOf :: "string \<Rightarrow> char \<Rightarrow> int" where
  "indexOf [] c = - 1"
| "indexOf (x # xs) c =
     (if x = c then 0 else (let i = indexOf xs c in if i = - 1 then - 1 else i + 1))"

text \<open>
  \<open>s.replace(pattern, replacement)\<close> with a string pattern replaces the first occurrence
  only, and the replacement is a template: \<open>$$\<close> stands for \<open>$\<close>, \<open>$&\<close> for the
  matched text, \<open>$`\<close> and \<open>$'\<close> for the text before and after the match. Without
  capture groups every other \<open>$\<close> is literal.
\<close>

fun getSubstitution :: "string \<Rightarrow> string \<Rightarrow> string \<Rightarrow> string \<Rightarrow> string" where
  "getSubstitution matched pre post [] = []"
| "getSubstitution matched pre post [c] = [c]"
| "getSubstitution matched pre post (c # d # r) =
     (if c = CHR ''$'' \<and> d = CHR ''$'' then CHR ''$'' # getSubstitution matched pre post r
      else if c = CHR ''$'' \<and> d = CHR ''&'' then matched @ getSubstitution matched pre post r
      else if c = CHR ''$'' \<and> d = CHR 0x60 then pre @ getSubstitution matched pre post r
      else if c = CHR ''$'' \<and> d = CHR 0x27 then post @ getSubstitution matched pre post r
      else c # getSubstitution matched pre post (d # r))"

text \<open>The text before and after the first occurrence of \<open>pat\<close> in \<open>s\<close>, if there is one.\<close>

fun firstMatch :: "string \<Rightarrow> string \<Rightarrow> (string \<times> string) option" where
  "firstMatch [] pat = (if pat = [] then Some ([], []) else None)"
| "firstMatch (c # cs) pat =
     (if startsWith (c # cs) pat then Some ([], drop (length pat) (c # cs))
      else (case firstMatch cs pat of
              None \<Rightarrow> None
            | Some (b, a) \<Rightarrow> Some (c # b, a)))"

definition replace :: "string \<Rightarrow> string \<Rightarrow> string \<Rightarrow> string" where
  "replace s pat repl =
     (case firstMatch s pat of
        None \<Rightarrow> s
      | Some (b, a) \<Rightarrow> b @ getSubstitution pat b a repl @ a)"

section \<open>Header objects\<close>

text \<open>
  \<open>Record<string, string>\<close>: an object's own properties in enumeration order, as an
  association list. \<open>obj[k]\<close> is \<^const>\<open>map_of\<close> (\<open>None\<close> for \<open>undefined\<close>),
  \<open>delete obj[k]\<close> is \<^const>\<open>AList.delete\<close>, \<open>obj[k] = v\<close> is \<^const>\<open>AList.update\<close>
  (an existing key keeps its place, a new one goes last), \<open>Object.keys(obj)\<close> is
  \<open>map fst\<close>, and the spread \<open>{ ...obj }\<close> is the list itself.
\<close>

type_synonym headers = "(string \<times> string) list"

definition keys :: "headers \<Rightarrow> string list" where
  "keys h = map fst h"

text \<open>Truthiness of \<open>string | undefined\<close>: \<open>undefined\<close> and \<open>""\<close> are falsy.\<close>

fun truthy :: "string option \<Rightarrow> bool" where
  "truthy None = False"
| "truthy (Some s) = (s \<noteq> [])"

text \<open>\<open>a || b\<close>\<close>

definition js_or :: "string option \<Rightarrow> string option \<Rightarrow> string option" where
  "js_or a b = (if truthy a then a else b)"

text \<open>
  The loop all three adapters end with:
  \<^verbatim>\<open>Object.keys(transformed).forEach(key => {
    if (key.toLowerCase().startsWith('cf-aig-')) { delete transformed[key]; } })\<close>
  The key list is taken once, before the loop; the object is the loop's state.
\<close>

fun removeGatewayHeaders :: "string list \<Rightarrow> headers \<Rightarrow> headers" where
  "removeGatewayHeaders [] transformed = transformed"
| "removeGatewayHeaders (key # ks) transformed =
     removeGatewayHeaders ks
       (if startsWith (toLowerCase key) ''cf-aig-'' then AList.delete key transformed
        else transformed)"

section \<open>Provider adapters\<close>

datatype adapter = DefaultAdapter | AzureOpenAIAdapter | BedrockAdapter

text \<open>\<open>AdapterFactory.getAdapter\<close>\<close>

definition getAdapter :: "string \<Rightarrow> adapter" where
  "getAdapter providerName =
     (if providerName = ''azure-openai'' then AzureOpenAIAdapter
      else if providerName = ''aws-bedrock'' then BedrockAdapter
      else DefaultAdapter)"

text \<open>\<open>DefaultAdapter.transformHeaders\<close>\<close>

definition DefaultAdapter_transformHeaders :: "headers \<Rightarrow> headers" where
  "DefaultAdapter_transformHeaders hdrs =
     (let transformed = hdrs;
          transformed = AList.delete ''cf-aig-authorization'' transformed;
          transformed = AList.delete ''host'' transformed
      in removeGatewayHeaders (keys transformed) transformed)"

text \<open>\<open>AzureOpenAIAdapter.transformHeaders\<close>\<close>

definition AzureOpenAIAdapter_transformHeaders :: "headers \<Rightarrow> headers" where
  "AzureOpenAIAdapter_transformHeaders hdrs =
     (let transformed = hdrs;
          transformed = AList.delete ''cf-aig-authorization'' transformed;
          transformed = AList.delete ''host'' transformed;
          transformed =
            (if truthy (js_or (map_of transformed ''authorization'')
                              (map_of transformed ''Authorization''))
             then
               (let authHeader = js_or (map_of transformed ''authorization'')
                                       (map_of transformed ''Authorization'');
                    transformed =
                      (case authHeader of
                         None \<Rightarrow> transformed
                       | Some a \<Rightarrow>
                           if a \<noteq> [] \<and> startsWith a ''Bearer ''
                           then AList.update ''api-key'' (substring a 7) transformed
                           else transformed);
                    transformed = AList.delete ''authorization'' transformed;
                    transformed = AList.delete ''Authorization'' transformed
                in transformed)
             else transformed)
      in removeGatewayHeaders (keys transformed) transformed)"

text \<open>\<open>BedrockAdapter.transformHeaders\<close>\<close>

definition BedrockAdapter_transformHeaders :: "headers \<Rightarrow> headers" where
  "BedrockAdapter_transformHeaders hdrs =
     (let transformed = hdrs;
          transformed = AList.delete ''cf-aig-authorization'' transformed;
          transformed = AList.delete ''host'' transformed
      in removeGatewayHeaders (keys transformed) transformed)"

text \<open>The interface method, dispatched on the adapter.\<close>

fun transformHeaders :: "adapter \<Rightarrow> headers \<Rightarrow> headers" where
  "transformHeaders DefaultAdapter hdrs = DefaultAdapter_transformHeaders hdrs"
| "transformHeaders AzureOpenAIAdapter hdrs = AzureOpenAIAdapter_transformHeaders hdrs"
| "transformHeaders BedrockAdapter hdrs = BedrockAdapter_transformHeaders hdrs"

subsection \<open>Target URLs\<close>

text \<open>\<open>throw new Error(message)\<close>, and the \<open>TypeError\<close> the runtime throws itself.\<close>

datatype js_error = Error string | TypeError string

text \<open>
  \<open>PROVIDER_BASE_URLS\<close>, an object literal: its own properties are the eight below, and
  behind them it inherits from \<open>Object.prototype\<close>, whose properties are functions
  (\<open>__proto__\<close> is the prototype object itself), never strings.
\<close>

definition PROVIDER_BASE_URLS :: "(string \<times> string) list" where
  "PROVIDER_BASE_URLS =
     [(''openai'', ''https://api.openai.com/v1''),
      (''anthropic'', ''https://api.anthropic.com/v1''),
      (''workers-ai'', ''https://api.cloudflare.com/client/v4/accounts/{accountId}/ai/run''),
      (''google-ai-studio'', ''https://generativelanguage.googleapis.com''),
      (''azure-openai'', []),
      (''aws-bedrock'', []),
      (''huggingface'', ''https://api-inference.huggingface.co''),
      (''cohere'', ''https://api.cohere.ai/v1'')]"

definition Object_prototype :: "string list" where
  "Object_prototype =
     [''constructor'', ''__defineGetter__'', ''__defineSetter__'', ''hasOwnProperty'',
      ''__lookupGetter__'', ''__lookupSetter__'', ''isPrototypeOf'',
      ''propertyIsEnumerable'', ''toString'', ''valueOf'', ''__proto__'',
      ''toLocaleString'']"

text \<open>What \<open>table[name]\<close> evaluates to.\<close>

datatype property_value = Undefined | Str string | Inherited

definition getProperty :: "(string \<times> string) list \<Rightarrow> string \<Rightarrow> property_value" where
  "getProperty table name =
     (case map_of table name of
        Some v \<Rightarrow> Str v
      | None \<Rightarrow> if name \<in> set Object_prototype then Inherited else Undefined)"

text \<open>
  \<open>DefaultAdapter.constructTargetUrl\<close>. \<open>!baseUrl\<close> holds for \<open>undefined\<close> and for the
  empty string; an inherited property is truthy and has no \<open>replace\<close> method, so the call
  on it throws a \<open>TypeError\<close>.
\<close>

definition DefaultAdapter_constructTargetUrl ::
  "string \<Rightarrow> string \<Rightarrow> string \<Rightarrow> string \<Rightarrow> js_error + string" where
  "DefaultAdapter_constructTargetUrl accountId providerName providerPath originalUrl =
     (case getProperty PROVIDER_BASE_URLS providerName of
        Undefined \<Rightarrow> Inl (Error (''Unsupported provider: '' @ providerName))
      | Str baseUrl \<Rightarrow>
          if baseUrl = [] then Inl (Error (''Unsupported provider: '' @ providerName))
          else (let finalBaseUrl = replace baseUrl ''{accountId}'' accountId
                in Inr (finalBaseUrl @ ''/'' @ providerPath))
      | Inherited \<Rightarrow> Inl (TypeError ''baseUrl.replace is not a function''))"

text \<open>\<open>AzureOpenAIAdapter.constructTargetUrl\<close>\<close>

definition AzureOpenAIAdapter_constructTargetUrl ::
  "string \<Rightarrow> string \<Rightarrow> string \<Rightarrow> string \<Rightarrow> js_error + string" where
  "AzureOpenAIAdapter_constructTargetUrl accountId providerName providerPath originalUrl =
     (let pathParts = split providerPath (CHR ''/'')
      in if length pathParts < 2
         then Inl (Error ''Azure OpenAI path must include resource_name and deployment_name'')
         else
           (let resourceName = pathParts ! 0;
                deploymentName = pathParts ! 1;
                restOfPath = join (drop 2 pathParts) ''/'';
                queryIndex = indexOf originalUrl (CHR ''?'');
                queryString =
                  (if queryIndex \<noteq> - 1 then substring originalUrl (nat queryIndex) else [])
            in Inr (''https://'' @ resourceName @ ''.openai.azure.com/openai/deployments/''
                    @ deploymentName @ ''/'' @ restOfPath @ queryString)))"

text \<open>\<open>BedrockAdapter.constructTargetUrl\<close>\<close>

definition BedrockAdapter_constructTargetUrl ::
  "string \<Rightarrow> string \<Rightarrow> string \<Rightarrow> string \<Rightarrow> js_error + string" where
  "BedrockAdapter_constructTargetUrl accountId providerName providerPath originalUrl =
     (let pathParts = split providerPath (CHR ''/'')
      in if length pathParts < 1
         then Inl (Error ''Bedrock path must include region'')
         else
           (let region = pathParts ! 0;
                restOfPath = join (drop 1 pathParts) ''/''
            in Inr (''https://bedrock-runtime.'' @ region @ ''.amazonaws.com/'' @ restOfPath)))"

fun constructTargetUrl ::
  "adapter \<Rightarrow> string \<Rightarrow> string \<Rightarrow> string \<Rightarrow> string \<Rightarrow> js_error + string" where
  "constructTargetUrl DefaultAdapter = DefaultAdapter_constructTargetUrl"
| "constructTargetUrl AzureOpenAIAdapter = AzureOpenAIAdapter_constructTargetUrl"
| "constructTargetUrl BedrockAdapter = BedrockAdapter_constructTargetUrl"

section \<open>Gateway records\<close>

datatype technique = fixed | sliding

record AIGateway =
  id :: string
  name :: string
  created_on :: string
  modified_on :: string
  cache_ttl :: int
  collect_logs :: bool
  rate_limiting_limit :: "int option"
  rate_limiting_interval :: "int option"
  rate_limiting_technique :: "technique option"

text \<open>The gateway record the unit tests use as their fixture.\<close>

definition mockGateway :: AIGateway where
  "mockGateway =
     \<lparr>id = ''gateway123'', name = ''Test Gateway'',
      created_on = ''2023-01-01T00:00:00Z'', modified_on = ''2023-01-01T00:00:00Z'',
      cache_ttl = 300, collect_logs = True,
      rate_limiting_limit = Some 100, rate_limiting_interval = Some 60,
      rate_limiting_technique = Some sliding\<rparr>"

section \<open>Authentication middleware\<close>

text \<open>
  The middleware either calls \<open>next()\<close> or ends the request with
  \<open>res.status(code).json({error, message})\<close>.
\<close>

datatype outcome = Next | Response nat string string

text \<open>
  \<open>AuthMiddleware.validateAuth(gateway)\<close>, applied to the request's headers. The flag that
  switches the check on is the gateway's \<open>collect_logs\<close>. \<open>!authHeader\<close> holds for a
  missing header and for an empty one; \<open>token.trim().length === 0\<close> covers \<open>!token\<close>.
\<close>

definition validateAuth :: "AIGateway \<Rightarrow> headers \<Rightarrow> outcome" where
  "validateAuth gateway req_headers =
     (if \<not> collect_logs gateway then Next
      else
        (let authHeader = map_of req_headers ''cf-aig-authorization''
         in case authHeader of
              None \<Rightarrow>
                Response 401 ''Unauthorized'' ''cf-aig-authorization header is required''
            | Some a \<Rightarrow>
                if a = [] then
                  Response 401 ''Unauthorized'' ''cf-aig-authorization header is required''
                else if \<not> startsWith a ''Bearer '' then
                  Response 401 ''Unauthorized''
                    (''cf-aig-authorization header must start with '' @
                     [CHR 0x22] @ ''Bearer '' @ [CHR 0x22])
                else
                  (let token = substring a 7
                   in if token = [] \<or> length (trim token) = 0
                      then Response 403 ''Forbidden'' ''Invalid authorization token''
                      else Next)))"

section \<open>Gateway configuration cache\<close>

record CacheEntry =
  gateway :: AIGateway
  timestamp :: int

text \<open>
  \<open>GatewayConfigService\<close>: the \<open>Map\<close> from gateway id to entry. \<open>cacheTTL\<close> is five minutes
  in milliseconds.
\<close>

record GatewayConfigService =
  cache :: "string \<rightharpoonup> CacheEntry"

definition cacheTTL :: int where
  "cacheTTL = 5 * 60 * 1000"

text \<open>
  What one call of \<open>getGatewayConfig\<close> reads from outside: \<open>Date.now()\<close> in the freshness
  test, the outcome of \<open>gatewayClient.getGateway(id)\<close> (\<open>None\<close> when the promise
  rejects), and \<open>Date.now()\<close> when the fetched record is stored.
\<close>

record world =
  now_check :: int
  getGateway :: "string \<Rightarrow> AIGateway option"
  now_store :: int

text \<open>
  \<open>GatewayConfigService.getGatewayConfig\<close>: the value the promise resolves to (\<open>None\<close> for
  \<open>null\<close>), the service afterwards, and the ids \<open>getGateway\<close> was called with. No other
  call is taken to write the cache while this one awaits the fetch.
\<close>

definition getGatewayConfig ::
  "world \<Rightarrow> GatewayConfigService \<Rightarrow> string
     \<Rightarrow> AIGateway option \<times> GatewayConfigService \<times> string list" where
  "getGatewayConfig w this gatewayId =
     (let cacheKey = gatewayId;
          cachedEntry = cache this cacheKey
      in if (case cachedEntry of
               None \<Rightarrow> False
             | Some e \<Rightarrow> now_check w - timestamp e < cacheTTL)
         then (map_option gateway cachedEntry, this, [])
         else
           (case getGateway w gatewayId of
              Some fetched \<Rightarrow>
                (Some fetched,
                 this\<lparr>cache := (cache this)
                    (cacheKey \<mapsto> \<lparr>gateway = fetched, timestamp = now_store w\<rparr>)\<rparr>,
                 [gatewayId])
            | None \<Rightarrow>
                (case cachedEntry of
                   Some e \<Rightarrow> (Some (gateway e), this, [gatewayId])
                 | None \<Rightarrow> (None, this, [gatewayId]))))"

section \<open>Header transforms: auxiliary facts\<close>

text \<open>The test the closing loop of every transform applies to a key.\<close>

abbreviation gatewayControl :: "string \<Rightarrow> bool" where
  "gatewayControl key \<equiv> startsWith (toLowerCase key) ''cf-aig-''"

lemma gatewayControl_authorization: "gatewayControl ''cf-aig-authorization''"
  by code_simp

lemma not_gatewayControl_fixed:
  "\<not> gatewayControl ''host''" "\<not> gatewayControl ''authorization''"
  "\<not> gatewayControl ''Authorization''" "\<not> gatewayControl ''api-key''"
  by code_simp+

lemma removeGatewayHeaders_filter:
  "removeGatewayHeaders ks t = filter (\<lambda>(k, v). \<not> (k \<in> set ks \<and> gatewayControl k)) t"
proof (induction ks arbitrary: t)
  case Nil
  then show ?case by simp
next
  case (Cons key ks)
  show ?case
    by (auto simp: Cons.IH AList.delete_eq intro!: filter_cong)
qed

lemma removeGatewayHeaders_keys:
  "removeGatewayHeaders (keys t) t = filter (\<lambda>(k, v). \<not> gatewayControl k) t"
  unfolding removeGatewayHeaders_filter keys_def
  by (rule filter_cong) force+

lemma keys_filter: "set (keys (filter (\<lambda>(k, v). P k) t)) = {k \<in> set (keys t). P k}"
  by (induction t) (auto simp: keys_def)

lemma keys_delete: "set (keys (AList.delete k t)) = set (keys t) - {k}"
  by (simp add: keys_def AList.delete_keys)

lemma map_of_filter_key:
  "map_of (filter (\<lambda>(k, v). P k) t) k = (if P k then map_of t k else None)"
  by (induction t) auto

lemma map_of_None_keys: "map_of t k = None \<longleftrightarrow> k \<notin> set (keys t)"
  by (simp add: map_of_eq_None_iff keys_def)

lemma delete_absent: "k \<notin> set (keys t) \<Longrightarrow> AList.delete k t = t"
  by (simp add: keys_def)

lemma removeGatewayHeaders_absent:
  "\<forall>k \<in> set (keys t). \<not> gatewayControl k \<Longrightarrow> removeGatewayHeaders (keys t) t = t"
  unfolding removeGatewayHeaders_keys by (rule filter_True) (force simp: keys_def)

lemma Default_keys:
  "set (keys (DefaultAdapter_transformHeaders h)) =
     {k \<in> set (keys h). \<not> gatewayControl k \<and> k \<noteq> ''host''}"
  using gatewayControl_authorization
  by (auto simp: DefaultAdapter_transformHeaders_def removeGatewayHeaders_keys keys_filter keys_delete)

lemma Default_lookup:
  "map_of (DefaultAdapter_transformHeaders h) k =
     (if gatewayControl k \<or> k = ''host'' then None else map_of h k)"
  using gatewayControl_authorization
  by (auto simp: DefaultAdapter_transformHeaders_def removeGatewayHeaders_keys map_of_filter_key
           AList.delete_conv')

lemma Default_fixed:
  assumes "''host'' \<notin> set (keys t)" "\<forall>k \<in> set (keys t). \<not> gatewayControl k"
  shows "DefaultAdapter_transformHeaders t = t"
proof -
  have "''cf-aig-authorization'' \<notin> set (keys t)"
    using assms(2) gatewayControl_authorization by blast
  then show ?thesis
    using assms by (simp add: DefaultAdapter_transformHeaders_def delete_absent removeGatewayHeaders_absent)
qed

lemma Bedrock_Default: "BedrockAdapter_transformHeaders h = DefaultAdapter_transformHeaders h"
  by (simp add: BedrockAdapter_transformHeaders_def DefaultAdapter_transformHeaders_def)

subsection \<open>The Azure conversion step\<close>

lemma map_of_stripped:
  "map_of (AList.delete ''host'' (AList.delete ''cf-aig-authorization'' h)) k =
     (if k = ''host'' \<or> k = ''cf-aig-authorization'' then None else map_of h k)"
  by (simp add: AList.delete_conv')

lemma Azure_unfold:
  "AzureOpenAIAdapter_transformHeaders h =
     (let t0 = AList.delete ''host'' (AList.delete ''cf-aig-authorization'' h);
          a = js_or (map_of h ''authorization'') (map_of h ''Authorization'')
      in filter (\<lambda>(k, v). \<not> gatewayControl k)
           (case a of
              None \<Rightarrow> t0
            | Some v \<Rightarrow>
                if v = [] then t0
                else AList.delete ''Authorization'' (AList.delete ''authorization''
                       (if startsWith v ''Bearer '' then AList.update ''api-key'' (substring v 7) t0
                        else t0))))"
proof -
  define t0 where "t0 = AList.delete ''host'' (AList.delete ''cf-aig-authorization'' h)"
  define a where "a = js_or (map_of h ''authorization'') (map_of h ''Authorization'')"
  have a0: "js_or (map_of t0 ''authorization'') (map_of t0 ''Authorization'') = a"
    unfolding t0_def a_def map_of_stripped by simp
  have "AzureOpenAIAdapter_transformHeaders h =
      (let transformed =
            (if truthy a
             then
               (let authHeader = a;
                    transformed =
                      (case authHeader of
                         None \<Rightarrow> t0
                       | Some a \<Rightarrow>
                           if a \<noteq> [] \<and> startsWith a ''Bearer ''
                           then AList.update ''api-key'' (substring a 7) t0
                           else t0);
                    transformed = AList.delete ''authorization'' transformed;
                    transformed = AList.delete ''Authorization'' transformed
                in transformed)
             else t0)
      in removeGatewayHeaders (keys transformed) transformed)"
    unfolding AzureOpenAIAdapter_transformHeaders_def Let_def t0_def[symmetric] a0 ..
  also have "\<dots> = filter (\<lambda>(k, v). \<not> gatewayControl k)
           (case a of
              None \<Rightarrow> t0
            | Some v \<Rightarrow>
                if v = [] then t0
                else AList.delete ''Authorization'' (AList.delete ''authorization''
                       (if startsWith v ''Bearer '' then AList.update ''api-key'' (substring v 7) t0
                        else t0)))"
    unfolding Let_def removeGatewayHeaders_keys
    by (cases a) simp_all
  finally show ?thesis
    unfolding Let_def t0_def a_def .
qed

lemma Azure_lookup:
  "map_of (AzureOpenAIAdapter_transformHeaders h) k =
     (if gatewayControl k \<or> k = ''host'' then None
      else case js_or (map_of h ''authorization'') (map_of h ''Authorization'') of
             None \<Rightarrow> map_of h k
           | Some v \<Rightarrow>
               if v = [] then map_of h k
               else if k = ''authorization'' \<or> k = ''Authorization'' then None
               else if k = ''api-key'' \<and> startsWith v ''Bearer '' then Some (substring v 7)
               else map_of h k)"
proof (cases "gatewayControl k")
  case True
  then show ?thesis
    unfolding Azure_unfold Let_def map_of_filter_key by simp
next
  case False
  then have nc: "k \<noteq> ''cf-aig-authorization''"
    using gatewayControl_authorization by blast
  define t0 where "t0 = AList.delete ''host'' (AList.delete ''cf-aig-authorization'' h)"
  have t0: "map_of t0 k' =
      (if k' = ''host'' \<or> k' = ''cf-aig-authorization'' then None else map_of h k')" for k'
    unfolding t0_def by (rule map_of_stripped)
  show ?thesis
  proof (cases "js_or (map_of h ''authorization'') (map_of h ''Authorization'')")
    case None
    then show ?thesis
      unfolding Azure_unfold Let_def map_of_filter_key t0_def[symmetric]
      using False nc by (simp add: t0)
  next
    case (Some v)
    show ?thesis
    proof (cases "v = []")
      case True
      then show ?thesis
        unfolding Azure_unfold Let_def map_of_filter_key t0_def[symmetric] Some
        using False nc by (simp add: t0)
    next
      case nonempty: False
      show ?thesis
      proof (cases "startsWith v ''Bearer ''")
        case True
        then show ?thesis
          unfolding Azure_unfold Let_def map_of_filter_key t0_def[symmetric] Some
          using False nc nonempty
          by (simp add: AList.delete_conv' AList.update_conv' t0)
      next
        case notBearer: False
        then show ?thesis
          unfolding Azure_unfold Let_def map_of_filter_key t0_def[symmetric] Some
          using False nc nonempty
          by (simp add: AList.delete_conv' t0)
      qed
    qed
  qed
qed

lemma Azure_keys_sub:
  assumes "k \<in> set (keys (AzureOpenAIAdapter_transformHeaders h))"
  shows "\<not> gatewayControl k \<and> k \<noteq> ''host''"
proof -
  have "map_of (AzureOpenAIAdapter_transformHeaders h) k \<noteq> None"
    using assms by (simp add: map_of_None_keys)
  then show ?thesis
    unfolding Azure_lookup by (simp split: if_splits)
qed

lemma truthy_case: "truthy a \<longleftrightarrow> (\<exists>v. a = Some v \<and> v \<noteq> [])"
  by (cases a) auto

lemma Azure_fixed:
  assumes "''host'' \<notin> set (keys t)" "\<forall>k \<in> set (keys t). \<not> gatewayControl k"
    and "\<not> truthy (js_or (map_of t ''authorization'') (map_of t ''Authorization''))"
  shows "AzureOpenAIAdapter_transformHeaders t = t"
proof -
  have c: "''cf-aig-authorization'' \<notin> set (keys t)"
    using assms(2) gatewayControl_authorization by blast
  have t0: "AList.delete ''host'' (AList.delete ''cf-aig-authorization'' t) = t"
    using c assms(1) by (simp add: delete_absent)
  have f: "filter (\<lambda>(k, v). \<not> gatewayControl k) t = t"
    using assms(2) by (intro filter_True) (force simp: keys_def)
  show ?thesis
  proof (cases "js_or (map_of t ''authorization'') (map_of t ''Authorization'')")
    case None
    then show ?thesis unfolding Azure_unfold Let_def t0 by (simp add: f)
  next
    case (Some v)
    then have "v = []" using assms(3) by simp
    then show ?thesis unfolding Azure_unfold Let_def t0 Some by (simp add: f)
  qed
qed

lemma Azure_idem:
  "AzureOpenAIAdapter_transformHeaders (AzureOpenAIAdapter_transformHeaders h) =
     AzureOpenAIAdapter_transformHeaders h"
proof (rule Azure_fixed)
  let ?out = "AzureOpenAIAdapter_transformHeaders h"
  let ?a = "js_or (map_of h ''authorization'') (map_of h ''Authorization'')"
  show "''host'' \<notin> set (keys ?out)" using Azure_keys_sub by blast
  show "\<forall>k \<in> set (keys ?out). \<not> gatewayControl k" using Azure_keys_sub by blast
  have l: "map_of ?out ''authorization'' = (if truthy ?a then None else map_of h ''authorization'')"
    "map_of ?out ''Authorization'' = (if truthy ?a then None else map_of h ''Authorization'')"
    unfolding Azure_lookup using not_gatewayControl_fixed
    by (simp_all add: truthy_case split: option.splits)
  show "\<not> truthy (js_or (map_of ?out ''authorization'') (map_of ?out ''Authorization''))"
    unfolding l by (simp add: js_or_def)
qed

section \<open>String splitting and target URLs: auxiliary facts\<close>

lemma split_not_Nil: "split s c \<noteq> []"
  by (induction s) (auto simp: Let_def)

lemma split_no_sep: "c \<notin> set s \<Longrightarrow> split s c = [s]"
  by (induction s) (auto simp: Let_def)

lemma split_append: "c \<notin> set r \<Longrightarrow> split (r @ c # s) c = r # split s c"
  by (induction r) (auto simp: Let_def)

lemma join_Cons: "ys \<noteq> [] \<Longrightarrow> join (x # ys) sep = x @ sep @ join ys sep"
  by (cases ys) auto

lemma join_split: "join (split s c) [c] = s"
proof (induction s)
  case Nil
  then show ?case by simp
next
  case (Cons x s)
  show ?case
  proof (cases "x = c")
    case True
    then show ?thesis
      using Cons.IH by (simp add: Let_def join_Cons split_not_Nil)
  next
    case False
    obtain w ws where w: "split s c = w # ws"
      using split_not_Nil by (cases "split s c") auto
    show ?thesis
      using False Cons.IH w by (cases ws) (auto simp: Let_def)
  qed
qed

lemma split_segments: "\<forall>seg \<in> set (split s c). c \<notin> set seg"
proof (induction s)
  case Nil
  then show ?case by simp
next
  case (Cons x s)
  obtain w ws where w: "split s c = w # ws"
    using split_not_Nil by (cases "split s c") auto
  then show ?case using Cons.IH by (auto simp: Let_def)
qed

lemma indexOf_absent: "c \<notin> set s \<Longrightarrow> indexOf s c = - 1"
  by (induction s) (auto simp: Let_def)

lemma indexOf_ge: "- 1 \<le> indexOf s c"
  by (induction s) (auto simp: Let_def)

lemma indexOf_present: "c \<in> set s \<Longrightarrow> 0 \<le> indexOf s c"
  by (induction s) (auto simp: Let_def)

lemma queryString_dropWhile:
  "(if indexOf u c \<noteq> - 1 then substring u (nat (indexOf u c)) else []) =
     dropWhile (\<lambda>x. x \<noteq> c) u"
proof (induction u)
  case Nil
  then show ?case by simp
next
  case (Cons x u)
  show ?case
  proof (cases "x = c")
    case True
    then show ?thesis by (simp add: substring_def)
  next
    case False
    show ?thesis
    proof (cases "c \<in> set u")
      case True
      then have "0 \<le> indexOf u c" by (rule indexOf_present)
      then show ?thesis
        using False Cons.IH by (auto simp: Let_def substring_def nat_add_distrib)
    next
      case False
      then have "indexOf u c = - 1" by (rule indexOf_absent)
      then show ?thesis using \<open>x \<noteq> c\<close> Cons.IH by (simp add: Let_def)
    qed
  qed
qed

lemma Azure_url_split:
  "AzureOpenAIAdapter_constructTargetUrl a n p u =
     (case split p (CHR ''/'') of
        R # D # rest \<Rightarrow>
          Inr (''https://'' @ R @ ''.openai.azure.com/openai/deployments/'' @ D @ ''/''
               @ join rest ''/'' @ dropWhile (\<lambda>x. x \<noteq> CHR ''?'') u)
      | _ \<Rightarrow> Inl (Error ''Azure OpenAI path must include resource_name and deployment_name''))"
proof -
  have q: "(if indexOf u (CHR ''?'') \<noteq> - 1 then substring u (nat (indexOf u (CHR ''?''))) else [])
      = dropWhile (\<lambda>x. x \<noteq> CHR ''?'') u"
    by (rule queryString_dropWhile)
  show ?thesis
    unfolding AzureOpenAIAdapter_constructTargetUrl_def Let_def q
    by (simp split: list.splits)
qed

lemma Bedrock_url_split:
  "BedrockAdapter_constructTargetUrl a n p u =
     (case split p (CHR ''/'') of
        region # rest \<Rightarrow>
          Inr (''https://bedrock-runtime.'' @ region @ ''.amazonaws.com/'' @ join rest ''/'')
      | [] \<Rightarrow> Inl (Error ''Bedrock path must include region''))"
  unfolding BedrockAdapter_constructTargetUrl_def Let_def
  by (simp split: list.splits)

section \<open>Gateway-control headers are never forwarded\<close>

text \<open>
  C7. For each of the three adapters and every header object, no key of the transformed
  headers starts, compared without regard to case, with \<open>cf-aig-\<close>; in particular no
  key is \<open>cf-aig-authorization\<close> in any casing.
\<close>

theorem transformHeaders_strips_gateway_control:
  "\<forall>key \<in> set (keys (transformHeaders a h)).
     \<not> startsWith (toLowerCase key) ''cf-aig-'' \<and> toLowerCase key \<noteq> ''cf-aig-authorization''"
proof
  fix key
  assume k: "key \<in> set (keys (transformHeaders a h))"
  have "\<not> gatewayControl key"
  proof (cases a)
    case DefaultAdapter
    then show ?thesis using k by (simp add: Default_keys)
  next
    case AzureOpenAIAdapter
    then show ?thesis using k Azure_keys_sub by simp
  next
    case BedrockAdapter
    then show ?thesis using k by (simp add: Bedrock_Default Default_keys)
  qed
  moreover have "startsWith ''cf-aig-authorization'' ''cf-aig-''"
    by (simp add: startsWith_def)
  ultimately show "\<not> startsWith (toLowerCase key) ''cf-aig-'' \<and>
      toLowerCase key \<noteq> ''cf-aig-authorization''"
    by auto
qed

theorem transformHeaders_strips_gateway_control_witness:
  "''content-type'' \<in> set (keys (transformHeaders AzureOpenAIAdapter
      [(''CF-AIG-Authorization'', ''Bearer x''), (''cf-aig-custom'', ''1''),
       (''content-type'', ''application/json'')]))
   \<and> \<not> startsWith (toLowerCase ''content-type'') ''cf-aig-''
   \<and> keys (transformHeaders AzureOpenAIAdapter
      [(''CF-AIG-Authorization'', ''Bearer x''), (''cf-aig-custom'', ''1''),
       (''content-type'', ''application/json'')]) = [''content-type'']"
proof -
  let ?h = "[(''CF-AIG-Authorization'', ''Bearer x''), (''cf-aig-custom'', ''1''),
       (''content-type'', ''application/json'')]"
  have m: "keys (transformHeaders AzureOpenAIAdapter ?h) = [''content-type'']"
    by code_simp
  then have "''content-type'' \<in> set (keys (transformHeaders AzureOpenAIAdapter ?h))"
    by simp
  with transformHeaders_strips_gateway_control[of AzureOpenAIAdapter ?h] m
  show ?thesis by blast
qed

section \<open>Idempotence of the header transforms\<close>

text \<open>
  C8. For each of the three adapters and every header object \<open>h\<close>, transforming the
  transformed headers once more changes nothing:
  \<open>transformHeaders (transformHeaders h) = transformHeaders h\<close>, as objects with their
  enumeration order.
\<close>

theorem transformHeaders_idempotent:
  "transformHeaders a (transformHeaders a h) = transformHeaders a h"
proof (cases a)
  case DefaultAdapter
  have "DefaultAdapter_transformHeaders (DefaultAdapter_transformHeaders h) =
      DefaultAdapter_transformHeaders h"
    by (rule Default_fixed) (simp_all add: Default_keys)
  then show ?thesis using DefaultAdapter by simp
next
  case AzureOpenAIAdapter
  then show ?thesis by (simp add: Azure_idem)
next
  case BedrockAdapter
  have "DefaultAdapter_transformHeaders (DefaultAdapter_transformHeaders h) =
      DefaultAdapter_transformHeaders h"
    by (rule Default_fixed) (simp_all add: Default_keys)
  then show ?thesis using BedrockAdapter by (simp add: Bedrock_Default)
qed

theorem transformHeaders_idempotent_witness:
  "transformHeaders AzureOpenAIAdapter
     [(''authorization'', ''Bearer azure_token123''), (''content-type'', ''application/json''),
      (''cf-aig-authorization'', ''Bearer x'')] =
     [(''content-type'', ''application/json''), (''api-key'', ''azure_token123'')]
   \<and> transformHeaders AzureOpenAIAdapter
     (transformHeaders AzureOpenAIAdapter
       [(''authorization'', ''Bearer azure_token123''), (''content-type'', ''application/json''),
        (''cf-aig-authorization'', ''Bearer x'')]) =
     [(''content-type'', ''application/json''), (''api-key'', ''azure_token123'')]"
proof -
  let ?h = "[(''authorization'', ''Bearer azure_token123''), (''content-type'', ''application/json''),
      (''cf-aig-authorization'', ''Bearer x'')]"
  have e: "transformHeaders AzureOpenAIAdapter ?h =
      [(''content-type'', ''application/json''), (''api-key'', ''azure_token123'')]"
    by code_simp
  show ?thesis
    using transformHeaders_idempotent[of AzureOpenAIAdapter ?h] e by simp
qed

section \<open>The Azure header conversion\<close>

text \<open>
  C3, as the specification words it, says that an \<open>Authorization\<close> header whose value
  does not start with \<open>Bearer \<close> is left in place. The adapter deletes it: the two
  \<open>delete\<close> statements stand outside the test for the prefix. For the object
  \<open>{authorization: "Basic abc"}\<close> the result is the empty object.
\<close>

theorem AzureOpenAIAdapter_transformHeaders_spec_counterexample:
  "map_of [(''authorization'', ''Basic abc'')] ''authorization'' = Some ''Basic abc''
   \<and> \<not> startsWith ''Basic abc'' ''Bearer ''
   \<and> AzureOpenAIAdapter_transformHeaders [(''authorization'', ''Basic abc'')] = []
   \<and> map_of (AzureOpenAIAdapter_transformHeaders [(''authorization'', ''Basic abc'')])
         ''authorization'' = None"
  by code_simp

text \<open>
  C3, amended. The Azure transform strips the gateway-control headers and \<open>host\<close> as the
  generic adapter does. In addition it reads \<open>authorization\<close>, or \<open>Authorization\<close> when
  \<open>authorization\<close> is missing or empty. When that value is missing or empty, every
  header is as the generic adapter leaves it. When it is not empty, both \<open>authorization\<close>
  and \<open>Authorization\<close> are removed, whatever the value starts with; if it starts with
  \<open>Bearer \<close>, \<open>api-key\<close> is set to the rest of it; every other header is as the generic
  adapter leaves it.
\<close>

theorem AzureOpenAIAdapter_transformHeaders_conversion:
  "map_of (AzureOpenAIAdapter_transformHeaders h) k =
     (case js_or (map_of h ''authorization'') (map_of h ''Authorization'') of
        None \<Rightarrow> map_of (DefaultAdapter_transformHeaders h) k
      | Some v \<Rightarrow>
          if v = [] then map_of (DefaultAdapter_transformHeaders h) k
          else if k = ''authorization'' \<or> k = ''Authorization'' then None
          else if k = ''api-key'' \<and> startsWith v ''Bearer '' then Some (substring v 7)
          else map_of (DefaultAdapter_transformHeaders h) k)"
  unfolding Azure_lookup Default_lookup
  using not_gatewayControl_fixed
  by (simp split: option.splits)

theorem AzureOpenAIAdapter_transformHeaders_conversion_witness:
  "js_or (map_of [(''authorization'', ''Bearer azure_token123''),
                  (''content-type'', ''application/json''),
                  (''cf-aig-authorization'', ''Bearer x'')] ''authorization'')
         (map_of [(''authorization'', ''Bearer azure_token123''),
                  (''content-type'', ''application/json''),
                  (''cf-aig-authorization'', ''Bearer x'')] ''Authorization'')
     = Some ''Bearer azure_token123''
   \<and> map_of (AzureOpenAIAdapter_transformHeaders
        [(''authorization'', ''Bearer azure_token123''),
         (''content-type'', ''application/json''),
         (''cf-aig-authorization'', ''Bearer x'')]) ''api-key'' = Some ''azure_token123''"
proof -
  let ?h = "[(''authorization'', ''Bearer azure_token123''),
             (''content-type'', ''application/json''),
             (''cf-aig-authorization'', ''Bearer x'')]"
  have a: "js_or (map_of ?h ''authorization'') (map_of ?h ''Authorization'')
      = Some ''Bearer azure_token123''"
    by code_simp
  have b: "startsWith ''Bearer azure_token123'' ''Bearer ''"
    "substring ''Bearer azure_token123'' 7 = ''azure_token123''"
    by code_simp+
  show ?thesis
    using AzureOpenAIAdapter_transformHeaders_conversion[of ?h "''api-key''"] b
    unfolding a by simp
qed

text \<open>
  C10, as stated, covers every value that does not start with \<open>Bearer \<close>, the empty one
  included. An empty value is falsy, so the conversion is skipped and the header stays:
  \<open>{authorization: ""}\<close> comes back unchanged.
\<close>

theorem AzureOpenAIAdapter_non_bearer_counterexample:
  "map_of [(''authorization'', ''''::string)] ''authorization'' = Some ''''
   \<and> \<not> startsWith '''' ''Bearer ''
   \<and> AzureOpenAIAdapter_transformHeaders [(''authorization'', '''')] = [(''authorization'', '''')]
   \<and> ''authorization'' \<in> set (keys (AzureOpenAIAdapter_transformHeaders [(''authorization'', '''')]))"
  by code_simp

text \<open>
  C10, amended. Let \<open>v\<close> be the value the conversion reads: that of \<open>authorization\<close>, or
  of \<open>Authorization\<close> when \<open>authorization\<close> is missing or empty. If \<open>v\<close> is not empty and
  does not start with \<open>Bearer \<close>, the transformed headers hold neither \<open>authorization\<close>
  nor \<open>Authorization\<close>, and \<open>api-key\<close> is what it was in the input: none is added.
\<close>

theorem AzureOpenAIAdapter_drops_non_bearer:
  assumes "js_or (map_of h ''authorization'') (map_of h ''Authorization'') = Some v"
    and "v \<noteq> []" and "\<not> startsWith v ''Bearer ''"
  shows "''authorization'' \<notin> set (keys (AzureOpenAIAdapter_transformHeaders h))
     \<and> ''Authorization'' \<notin> set (keys (AzureOpenAIAdapter_transformHeaders h))
     \<and> map_of (AzureOpenAIAdapter_transformHeaders h) ''api-key'' = map_of h ''api-key''"
  unfolding map_of_None_keys[symmetric] Azure_lookup assms(1)
  using not_gatewayControl_fixed assms(2,3)
  by simp

theorem AzureOpenAIAdapter_drops_non_bearer_witness:
  "js_or (map_of [(''authorization'', ''Basic abc''), (''api-key'', ''k1'')] ''authorization'')
         (map_of [(''authorization'', ''Basic abc''), (''api-key'', ''k1'')] ''Authorization'')
     = Some ''Basic abc''
   \<and> ''Basic abc'' \<noteq> [] \<and> \<not> startsWith ''Basic abc'' ''Bearer ''
   \<and> ''authorization'' \<notin> set (keys (AzureOpenAIAdapter_transformHeaders
         [(''authorization'', ''Basic abc''), (''api-key'', ''k1'')]))
   \<and> map_of (AzureOpenAIAdapter_transformHeaders
         [(''authorization'', ''Basic abc''), (''api-key'', ''k1'')]) ''api-key'' = Some ''k1''"
proof -
  let ?h = "[(''authorization'', ''Basic abc''), (''api-key'', ''k1'')]"
  have a: "js_or (map_of ?h ''authorization'') (map_of ?h ''Authorization'') = Some ''Basic abc''"
    by code_simp
  have b: "''Basic abc'' \<noteq> []" by simp
  have c: "\<not> startsWith ''Basic abc'' ''Bearer ''" by code_simp
  have d: "map_of ?h ''api-key'' = Some ''k1''" by code_simp
  show ?thesis
    using AzureOpenAIAdapter_drops_non_bearer[OF a b c] a b c d by simp
qed

section \<open>The Azure target URL\<close>

text \<open>
  C4. For every account id, sub-path and original request target, the Azure adapter
  splits the sub-path on \<open>/\<close>. With fewer than two segments it fails with the error
  "Azure OpenAI path must include resource_name and deployment_name". Otherwise, with
  first segment \<open>R\<close>, second segment \<open>D\<close> and the remaining segments joined with \<open>/\<close>, it
  returns \<open>https://R.openai.azure.com/openai/deployments/D/\<close> followed by that rest and
  by the original target from its first \<open>?\<close> on (nothing when it has none). In terms of
  the sub-path itself: a sub-path without \<open>/\<close> fails, \<open>R/D\<close> gives an empty rest, and
  \<open>R/D/P\<close> gives the rest \<open>P\<close> verbatim.
\<close>

theorem AzureOpenAIAdapter_constructTargetUrl_contract:
  "(length (split providerPath (CHR ''/'')) < 2 \<longrightarrow>
      AzureOpenAIAdapter_constructTargetUrl accountId providerName providerPath originalUrl =
        Inl (Error ''Azure OpenAI path must include resource_name and deployment_name''))
   \<and> (\<forall>R D rest. split providerPath (CHR ''/'') = R # D # rest \<longrightarrow>
      AzureOpenAIAdapter_constructTargetUrl accountId providerName providerPath originalUrl =
        Inr (''https://'' @ R @ ''.openai.azure.com/openai/deployments/'' @ D @ ''/''
             @ join rest ''/'' @ dropWhile (\<lambda>c. c \<noteq> CHR ''?'') originalUrl))
   \<and> (CHR ''/'' \<notin> set providerPath \<longrightarrow>
      AzureOpenAIAdapter_constructTargetUrl accountId providerName providerPath originalUrl =
        Inl (Error ''Azure OpenAI path must include resource_name and deployment_name''))
   \<and> (\<forall>R D. CHR ''/'' \<notin> set R \<and> CHR ''/'' \<notin> set D \<and> providerPath = R @ ''/'' @ D \<longrightarrow>
      AzureOpenAIAdapter_constructTargetUrl accountId providerName providerPath originalUrl =
        Inr (''https://'' @ R @ ''.openai.azure.com/openai/deployments/'' @ D @ ''/''
             @ dropWhile (\<lambda>c. c \<noteq> CHR ''?'') originalUrl))
   \<and> (\<forall>R D P. CHR ''/'' \<notin> set R \<and> CHR ''/'' \<notin> set D \<and> providerPath = R @ ''/'' @ D @ ''/'' @ P \<longrightarrow>
      AzureOpenAIAdapter_constructTargetUrl accountId providerName providerPath originalUrl =
        Inr (''https://'' @ R @ ''.openai.azure.com/openai/deployments/'' @ D @ ''/''
             @ P @ dropWhile (\<lambda>c. c \<noteq> CHR ''?'') originalUrl))"
proof (intro conjI allI impI)
  assume "length (split providerPath (CHR ''/'')) < 2"
  then show "AzureOpenAIAdapter_constructTargetUrl accountId providerName providerPath originalUrl =
      Inl (Error ''Azure OpenAI path must include resource_name and deployment_name'')"
    by (simp add: AzureOpenAIAdapter_constructTargetUrl_def)
next
  fix R D rest
  assume "split providerPath (CHR ''/'') = R # D # rest"
  then show "AzureOpenAIAdapter_constructTargetUrl accountId providerName providerPath originalUrl =
        Inr (''https://'' @ R @ ''.openai.azure.com/openai/deployments/'' @ D @ ''/''
             @ join rest ''/'' @ dropWhile (\<lambda>c. c \<noteq> CHR ''?'') originalUrl)"
    by (simp add: Azure_url_split)
next
  assume "CHR ''/'' \<notin> set providerPath"
  then have "split providerPath (CHR ''/'') = [providerPath]" by (rule split_no_sep)
  then show "AzureOpenAIAdapter_constructTargetUrl accountId providerName providerPath originalUrl =
      Inl (Error ''Azure OpenAI path must include resource_name and deployment_name'')"
    by (simp add: Azure_url_split)
next
  fix R D
  assume a: "CHR ''/'' \<notin> set R \<and> CHR ''/'' \<notin> set D \<and> providerPath = R @ ''/'' @ D"
  then have "split providerPath (CHR ''/'') = [R, D]"
    by (simp add: split_append split_no_sep)
  then show "AzureOpenAIAdapter_constructTargetUrl accountId providerName providerPath originalUrl =
        Inr (''https://'' @ R @ ''.openai.azure.com/openai/deployments/'' @ D @ ''/''
             @ dropWhile (\<lambda>c. c \<noteq> CHR ''?'') originalUrl)"
    by (simp add: Azure_url_split)
next
  fix R D P
  assume a: "CHR ''/'' \<notin> set R \<and> CHR ''/'' \<notin> set D \<and> providerPath = R @ ''/'' @ D @ ''/'' @ P"
  then have "split providerPath (CHR ''/'') = R # D # split P (CHR ''/'')"
    by (simp add: split_append)
  moreover have "join (split P (CHR ''/'')) ''/'' = P" by (rule join_split)
  ultimately show "AzureOpenAIAdapter_constructTargetUrl accountId providerName providerPath originalUrl =
        Inr (''https://'' @ R @ ''.openai.azure.com/openai/deployments/'' @ D @ ''/''
             @ P @ dropWhile (\<lambda>c. c \<noteq> CHR ''?'') originalUrl)"
    by (simp add: Azure_url_split)
qed

theorem AzureOpenAIAdapter_constructTargetUrl_contract_witness:
  "length (split ''invalidpath'' (CHR ''/'')) < 2
   \<and> AzureOpenAIAdapter_constructTargetUrl ''account123'' ''azure-openai'' ''invalidpath'' ''url'' =
        Inl (Error ''Azure OpenAI path must include resource_name and deployment_name'')
   \<and> split ''myresource/mydeployment/chat/completions'' (CHR ''/'') =
        [''myresource'', ''mydeployment'', ''chat'', ''completions'']
   \<and> AzureOpenAIAdapter_constructTargetUrl ''account123'' ''azure-openai''
        ''myresource/mydeployment/chat/completions''
        ''/v1/account123/gateway456/azure-openai/myresource/mydeployment/chat/completions?api-version=2023-05-15'' =
        Inr ''https://myresource.openai.azure.com/openai/deployments/mydeployment/chat/completions?api-version=2023-05-15''
   \<and> AzureOpenAIAdapter_constructTargetUrl ''account123'' ''azure-openai''
        ''myresource/mydeployment'' ''/x?y=1'' =
        Inr ''https://myresource.openai.azure.com/openai/deployments/mydeployment/?y=1''"
proof -
  let ?u = "''/v1/account123/gateway456/azure-openai/myresource/mydeployment/chat/completions?api-version=2023-05-15''"
  have s1: "length (split ''invalidpath'' (CHR ''/'')) < 2" by code_simp
  have s2: "split ''myresource/mydeployment/chat/completions'' (CHR ''/'') =
        [''myresource'', ''mydeployment'', ''chat'', ''completions'']" by code_simp
  have j: "join [''chat'', ''completions''] ''/'' = ''chat/completions''" by code_simp
  have q: "dropWhile (\<lambda>c. c \<noteq> CHR ''?'') ?u = ''?api-version=2023-05-15''" by code_simp
  have q2: "dropWhile (\<lambda>c. c \<noteq> CHR ''?'') ''/x?y=1'' = ''?y=1''" by code_simp
  have n: "CHR ''/'' \<notin> set ''myresource'' \<and> CHR ''/'' \<notin> set ''mydeployment'' \<and>
      ''myresource/mydeployment'' = ''myresource'' @ ''/'' @ ''mydeployment''" by code_simp
  note t1 = AzureOpenAIAdapter_constructTargetUrl_contract
      [of "''invalidpath''" "''account123''" "''azure-openai''" "''url''"]
  note t2 = AzureOpenAIAdapter_constructTargetUrl_contract
      [of "''myresource/mydeployment/chat/completions''" "''account123''" "''azure-openai''" ?u]
  note t3 = AzureOpenAIAdapter_constructTargetUrl_contract
      [of "''myresource/mydeployment''" "''account123''" "''azure-openai''" "''/x?y=1''"]
  have r1: "AzureOpenAIAdapter_constructTargetUrl ''account123'' ''azure-openai'' ''invalidpath'' ''url'' =
        Inl (Error ''Azure OpenAI path must include resource_name and deployment_name'')"
    using t1 s1 by blast
  have r2: "AzureOpenAIAdapter_constructTargetUrl ''account123'' ''azure-openai''
        ''myresource/mydeployment/chat/completions'' ?u =
        Inr (''https://'' @ ''myresource'' @ ''.openai.azure.com/openai/deployments/'' @ ''mydeployment'' @ ''/''
             @ join [''chat'', ''completions''] ''/'' @ dropWhile (\<lambda>c. c \<noteq> CHR ''?'') ?u)"
    using t2 s2 by blast
  have r3: "AzureOpenAIAdapter_constructTargetUrl ''account123'' ''azure-openai''
        ''myresource/mydeployment'' ''/x?y=1'' =
        Inr (''https://'' @ ''myresource'' @ ''.openai.azure.com/openai/deployments/'' @ ''mydeployment'' @ ''/''
             @ dropWhile (\<lambda>c. c \<noteq> CHR ''?'') ''/x?y=1'')"
    using t3 n by blast
  show ?thesis
    using s1 s2 r1 r2[unfolded j q] r3[unfolded q2] by simp
qed

section \<open>The Bedrock target URL\<close>

text \<open>
  C5 says that the Bedrock adapter fails when the sub-path has no segment, in particular
  for the empty sub-path. The adapter tests \<open>pathParts.length < 1\<close>, but \<open>split\<close> never
  returns an empty array: the empty sub-path splits into one empty segment, the test is
  false, and a URL with an empty region is returned.
\<close>

theorem BedrockAdapter_constructTargetUrl_empty_path:
  "BedrockAdapter_constructTargetUrl accountId providerName '''' originalUrl =
     Inr ''https://bedrock-runtime..amazonaws.com/''
   \<and> (\<forall>path. BedrockAdapter_constructTargetUrl accountId providerName path originalUrl
         \<noteq> Inl (Error ''Bedrock path must include region''))"
proof -
  have "BedrockAdapter_constructTargetUrl accountId providerName path originalUrl
         \<noteq> Inl (Error ''Bedrock path must include region'')" for path
    unfolding Bedrock_url_split using split_not_Nil[of path "CHR ''/''"]
    by (simp split: list.splits)
  then show ?thesis
    by (simp add: BedrockAdapter_constructTargetUrl_def)
qed

text \<open>
  The rest of the adapter's contract holds: with a region before the first \<open>/\<close> the
  URL is \<open>https://bedrock-runtime.{region}.amazonaws.com/\<close> followed by what comes after
  that \<open>/\<close>, verbatim; and the header transform keeps every header, in place and with
  its value, except \<open>host\<close> and those whose lower-cased name starts with \<open>cf-aig-\<close>.
\<close>

lemma BedrockAdapter_constructTargetUrl_region:
  assumes "CHR ''/'' \<notin> set region"
  shows "BedrockAdapter_constructTargetUrl accountId providerName (region @ ''/'' @ rest) originalUrl =
     Inr (''https://bedrock-runtime.'' @ region @ ''.amazonaws.com/'' @ rest)"
proof -
  have "split (region @ ''/'' @ rest) (CHR ''/'') = region # split rest (CHR ''/'')"
    using assms by (simp add: split_append)
  moreover have "join (split rest (CHR ''/'')) ''/'' = rest" by (rule join_split)
  ultimately show ?thesis by (simp add: Bedrock_url_split)
qed

lemma BedrockAdapter_constructTargetUrl_example:
  "BedrockAdapter_constructTargetUrl ''account123'' ''aws-bedrock''
     ''us-east-1/model/anthropic.claude-v2/invoke''
     ''/v1/account123/gateway456/aws-bedrock/us-east-1/model/anthropic.claude-v2/invoke'' =
   Inr ''https://bedrock-runtime.us-east-1.amazonaws.com/model/anthropic.claude-v2/invoke''"
  by code_simp

lemma BedrockAdapter_transformHeaders_passthrough:
  "map_of (BedrockAdapter_transformHeaders h) k =
     (if startsWith (toLowerCase k) ''cf-aig-'' \<or> k = ''host'' then None else map_of h k)"
  unfolding Bedrock_Default by (rule Default_lookup)

lemma BedrockAdapter_transformHeaders_order:
  "BedrockAdapter_transformHeaders h =
     filter (\<lambda>(k, v). \<not> startsWith (toLowerCase k) ''cf-aig-'' \<and> k \<noteq> ''host'') h"
proof -
  have "filter (\<lambda>(k, v). \<not> gatewayControl k)
          (AList.delete ''host'' (AList.delete ''cf-aig-authorization'' h)) =
        filter (\<lambda>(k, v). \<not> gatewayControl k \<and> k \<noteq> ''host'') h"
    using gatewayControl_authorization
    by (auto simp: AList.delete_eq intro!: filter_cong)
  then show ?thesis
    by (simp add: BedrockAdapter_transformHeaders_def removeGatewayHeaders_keys)
qed


section \<open>The generic target URL\<close>

lemma getSubstitution_plain:
  "CHR ''$'' \<notin> set repl \<Longrightarrow> getSubstitution matched pre post repl = repl"
  by (induction matched pre post repl rule: getSubstitution.induct) auto

lemma firstMatch_fixed:
  "firstMatch ''https://api.openai.com/v1'' ''{accountId}'' = None"
  "firstMatch ''https://api.anthropic.com/v1'' ''{accountId}'' = None"
  "firstMatch ''https://api.cloudflare.com/client/v4/accounts/{accountId}/ai/run'' ''{accountId}'' =
     Some (''https://api.cloudflare.com/client/v4/accounts/'', ''/ai/run'')"
  "firstMatch ''https://generativelanguage.googleapis.com'' ''{accountId}'' = None"
  "firstMatch ''https://api-inference.huggingface.co'' ''{accountId}'' = None"
  "firstMatch ''https://api.cohere.ai/v1'' ''{accountId}'' = None"
  by code_simp+

lemma getProperty_concrete:
  "getProperty PROVIDER_BASE_URLS ''openai'' = Str ''https://api.openai.com/v1''"
  "getProperty PROVIDER_BASE_URLS ''anthropic'' = Str ''https://api.anthropic.com/v1''"
  "getProperty PROVIDER_BASE_URLS ''workers-ai'' =
     Str ''https://api.cloudflare.com/client/v4/accounts/{accountId}/ai/run''"
  "getProperty PROVIDER_BASE_URLS ''google-ai-studio'' =
     Str ''https://generativelanguage.googleapis.com''"
  "getProperty PROVIDER_BASE_URLS ''azure-openai'' = Str []"
  "getProperty PROVIDER_BASE_URLS ''aws-bedrock'' = Str []"
  "getProperty PROVIDER_BASE_URLS ''huggingface'' = Str ''https://api-inference.huggingface.co''"
  "getProperty PROVIDER_BASE_URLS ''cohere'' = Str ''https://api.cohere.ai/v1''"
  by code_simp+

lemma getProperty_other:
  assumes "providerName \<notin> set (map fst PROVIDER_BASE_URLS)"
    and "providerName \<notin> set Object_prototype"
  shows "getProperty PROVIDER_BASE_URLS providerName = Undefined"
proof -
  have "map_of PROVIDER_BASE_URLS providerName = None"
    using assms(1) by (simp add: map_of_eq_None_iff)
  then show ?thesis using assms(2) by (simp add: getProperty_def)
qed

lemma PROVIDER_BASE_URLS_names:
  "map fst PROVIDER_BASE_URLS =
     [''openai'', ''anthropic'', ''workers-ai'', ''google-ai-studio'', ''azure-openai'',
      ''aws-bedrock'', ''huggingface'', ''cohere'']"
  by (simp add: PROVIDER_BASE_URLS_def)

lemma getAdapter_DefaultAdapter:
  "getAdapter providerName = DefaultAdapter \<longleftrightarrow>
     providerName \<noteq> ''azure-openai'' \<and> providerName \<noteq> ''aws-bedrock''"
  by (simp add: getAdapter_def)

text \<open>
  C6 says that the generic adapter fails with "Unsupported provider" for every provider
  name the table does not hold, and that for a name it holds the \<open>{accountId}\<close>
  placeholder is replaced by the account id. The adapter attempts both and misses each
  on inputs that reach it from the request path through the selector.
  \<^item> The lookup \<open>PROVIDER_BASE_URLS[providerName]\<close> also finds the properties inherited
    from \<open>Object.prototype\<close>. \<open>constructor\<close> is not in the table and the selector hands
    it to the generic adapter, but the lookup yields a function: \<open>!baseUrl\<close> is false,
    and \<open>baseUrl.replace\<close> throws a \<open>TypeError\<close> where "Unsupported provider:
    constructor" is due.
  \<^item> \<open>baseUrl.replace('{accountId}', accountId)\<close> reads the account id as a replacement
    template. For \<open>workers-ai\<close> and the account id \<open>$&\<close> the template stands for the
    matched text, so the placeholder is put back and the URL still holds \<open>{accountId}\<close>
    where \<open>$&\<close> is due.
\<close>

theorem DefaultAdapter_constructTargetUrl_slips:
  "getAdapter ''constructor'' = DefaultAdapter
   \<and> map_of PROVIDER_BASE_URLS ''constructor'' = None
   \<and> constructTargetUrl (getAdapter ''constructor'') ''account123'' ''constructor'' ''path''
        ''/v1/account123/gateway456/constructor/path'' =
       Inl (TypeError ''baseUrl.replace is not a function'')
   \<and> constructTargetUrl (getAdapter ''constructor'') ''account123'' ''constructor'' ''path''
        ''/v1/account123/gateway456/constructor/path'' \<noteq>
       Inl (Error ''Unsupported provider: constructor'')
   \<and> getAdapter ''workers-ai'' = DefaultAdapter
   \<and> map_of PROVIDER_BASE_URLS ''workers-ai'' =
       Some ''https://api.cloudflare.com/client/v4/accounts/{accountId}/ai/run''
   \<and> constructTargetUrl (getAdapter ''workers-ai'') ''$&'' ''workers-ai'' ''m''
        ''/v1/$&/gateway456/workers-ai/m'' =
       Inr ''https://api.cloudflare.com/client/v4/accounts/{accountId}/ai/run/m''
   \<and> constructTargetUrl (getAdapter ''workers-ai'') ''$&'' ''workers-ai'' ''m''
        ''/v1/$&/gateway456/workers-ai/m'' \<noteq>
       Inr ''https://api.cloudflare.com/client/v4/accounts/$&/ai/run/m''"
  by code_simp

text \<open>
  On every other input the generic adapter does what is claimed of it. For a provider
  name that is no property name of \<open>Object.prototype\<close> and, for \<open>workers-ai\<close>, an account
  id without \<open>$\<close>: the six names the table holds with a base URL give that base URL,
  with the placeholder replaced by the account id, followed by \<open>/\<close> and the sub-path
  verbatim; every other name fails with "Unsupported provider: " and the name. Among the
  latter are \<open>azure-openai\<close> and \<open>aws-bedrock\<close>, which the table holds with an empty base
  URL and which the selector never hands to the generic adapter.
\<close>

lemma DefaultAdapter_constructTargetUrl_table:
  assumes "providerName \<notin> set Object_prototype"
    and "providerName = ''workers-ai'' \<longrightarrow> CHR ''$'' \<notin> set accountId"
  shows "DefaultAdapter_constructTargetUrl accountId providerName providerPath originalUrl =
     (if providerName = ''openai'' then Inr (''https://api.openai.com/v1/'' @ providerPath)
      else if providerName = ''anthropic'' then Inr (''https://api.anthropic.com/v1/'' @ providerPath)
      else if providerName = ''workers-ai''
        then Inr (''https://api.cloudflare.com/client/v4/accounts/'' @ accountId @ ''/ai/run/''
                  @ providerPath)
      else if providerName = ''google-ai-studio''
        then Inr (''https://generativelanguage.googleapis.com/'' @ providerPath)
      else if providerName = ''huggingface''
        then Inr (''https://api-inference.huggingface.co/'' @ providerPath)
      else if providerName = ''cohere'' then Inr (''https://api.cohere.ai/v1/'' @ providerPath)
      else Inl (Error (''Unsupported provider: '' @ providerName)))"
proof -
  have w: "providerName = ''workers-ai'' \<Longrightarrow>
      replace ''https://api.cloudflare.com/client/v4/accounts/{accountId}/ai/run''
        ''{accountId}'' accountId =
      ''https://api.cloudflare.com/client/v4/accounts/'' @ accountId @ ''/ai/run''"
    unfolding replace_def firstMatch_fixed
    using assms(2) by (simp add: getSubstitution_plain)
  have r: "replace ''https://api.openai.com/v1'' ''{accountId}'' accountId = ''https://api.openai.com/v1''"
    "replace ''https://api.anthropic.com/v1'' ''{accountId}'' accountId = ''https://api.anthropic.com/v1''"
    "replace ''https://generativelanguage.googleapis.com'' ''{accountId}'' accountId =
       ''https://generativelanguage.googleapis.com''"
    "replace ''https://api-inference.huggingface.co'' ''{accountId}'' accountId =
       ''https://api-inference.huggingface.co''"
    "replace ''https://api.cohere.ai/v1'' ''{accountId}'' accountId = ''https://api.cohere.ai/v1''"
    unfolding replace_def firstMatch_fixed by simp_all
  consider (openai) "providerName = ''openai''" | (anthropic) "providerName = ''anthropic''"
    | (workers) "providerName = ''workers-ai''" | (google) "providerName = ''google-ai-studio''"
    | (azure) "providerName = ''azure-openai''" | (bedrock) "providerName = ''aws-bedrock''"
    | (huggingface) "providerName = ''huggingface''" | (cohere) "providerName = ''cohere''"
    | (other) "providerName \<notin> set (map fst PROVIDER_BASE_URLS)"
    unfolding PROVIDER_BASE_URLS_names by auto
  then show ?thesis
  proof cases
    case openai
    show ?thesis
      unfolding DefaultAdapter_constructTargetUrl_def openai getProperty_concrete
      by (simp add: r)
  next
    case anthropic
    show ?thesis
      unfolding DefaultAdapter_constructTargetUrl_def anthropic getProperty_concrete
      by (simp add: r)
  next
    case workers
    show ?thesis
      using w[OF workers]
      unfolding DefaultAdapter_constructTargetUrl_def workers getProperty_concrete
      by simp
  next
    case google
    show ?thesis
      unfolding DefaultAdapter_constructTargetUrl_def google getProperty_concrete
      by (simp add: r)
  next
    case azure
    show ?thesis
      unfolding DefaultAdapter_constructTargetUrl_def azure getProperty_concrete
      by simp
  next
    case bedrock
    show ?thesis
      unfolding DefaultAdapter_constructTargetUrl_def bedrock getProperty_concrete
      by simp
  next
    case huggingface
    show ?thesis
      unfolding DefaultAdapter_constructTargetUrl_def huggingface getProperty_concrete
      by (simp add: r)
  next
    case cohere
    show ?thesis
      unfolding DefaultAdapter_constructTargetUrl_def cohere getProperty_concrete
      by (simp add: r)
  next
    case other
    have "getProperty PROVIDER_BASE_URLS providerName = Undefined"
      using other assms(1) by (rule getProperty_other)
    moreover have "providerName \<noteq> ''openai''" "providerName \<noteq> ''anthropic''"
      "providerName \<noteq> ''workers-ai''" "providerName \<noteq> ''google-ai-studio''"
      "providerName \<noteq> ''huggingface''" "providerName \<noteq> ''cohere''"
      using other unfolding PROVIDER_BASE_URLS_names by auto
    ultimately show ?thesis
      unfolding DefaultAdapter_constructTargetUrl_def by simp
  qed
qed

lemma DefaultAdapter_constructTargetUrl_table_examples:
  "''workers-ai'' \<notin> set Object_prototype
   \<and> CHR ''$'' \<notin> set ''account123''
   \<and> DefaultAdapter_constructTargetUrl ''account123'' ''workers-ai''
        ''@cf/meta/llama-2-7b-chat-int8''
        ''/v1/account123/gateway456/workers-ai/@cf/meta/llama-2-7b-chat-int8'' =
      Inr ''https://api.cloudflare.com/client/v4/accounts/account123/ai/run/@cf/meta/llama-2-7b-chat-int8''
   \<and> ''unsupported'' \<notin> set Object_prototype
   \<and> DefaultAdapter_constructTargetUrl ''account123'' ''unsupported'' ''path'' ''url'' =
      Inl (Error ''Unsupported provider: unsupported'')"
proof -
  have a: "''workers-ai'' \<notin> set Object_prototype" by code_simp
  have b: "CHR ''$'' \<notin> set ''account123''" by code_simp
  have c: "''unsupported'' \<notin> set Object_prototype" by code_simp
  have b': "''workers-ai'' = ''workers-ai'' \<longrightarrow> CHR ''$'' \<notin> set ''account123''"
    using b by simp
  have c': "''unsupported'' = ''workers-ai'' \<longrightarrow> CHR ''$'' \<notin> set ''account123''"
    by simp
  show ?thesis
    using DefaultAdapter_constructTargetUrl_table[OF a b',
        of "''@cf/meta/llama-2-7b-chat-int8''"
           "''/v1/account123/gateway456/workers-ai/@cf/meta/llama-2-7b-chat-int8''"]
      DefaultAdapter_constructTargetUrl_table[OF c c', of "''path''" "''url''"]
      a b c
    by simp
qed

lemma DefaultAdapter_constructTargetUrl_empty_base:
  "map_of PROVIDER_BASE_URLS ''azure-openai'' = Some ''''
   \<and> DefaultAdapter_constructTargetUrl ''account123'' ''azure-openai'' ''res/dep/chat'' ''url'' =
       Inl (Error ''Unsupported provider: azure-openai'')"
  by code_simp

section \<open>The authentication gate\<close>

lemma trim_empty_iff: "trim t = [] \<longleftrightarrow> (\<forall>c \<in> set t. isWhiteSpace c)"
proof -
  have "dropWhile isWhiteSpace (rev (dropWhile isWhiteSpace t)) = [] \<longleftrightarrow>
      (\<forall>c \<in> set (dropWhile isWhiteSpace t). isWhiteSpace c)"
    by (simp add: dropWhile_eq_Nil_conv)
  also have "\<dots> \<longleftrightarrow> dropWhile isWhiteSpace t = []"
  proof
    assume a: "\<forall>c \<in> set (dropWhile isWhiteSpace t). isWhiteSpace c"
    show "dropWhile isWhiteSpace t = []"
    proof (rule ccontr)
      assume n: "dropWhile isWhiteSpace t \<noteq> []"
      then have "\<not> isWhiteSpace (hd (dropWhile isWhiteSpace t))" by (rule hd_dropWhile)
      moreover have "hd (dropWhile isWhiteSpace t) \<in> set (dropWhile isWhiteSpace t)"
        using n by simp
      ultimately show False using a by blast
    qed
  next
    assume "dropWhile isWhiteSpace t = []"
    then show "\<forall>c \<in> set (dropWhile isWhiteSpace t). isWhiteSpace c"
      by (simp del: dropWhile_eq_Nil_conv)
  qed
  also have "\<dots> \<longleftrightarrow> (\<forall>c \<in> set t. isWhiteSpace c)"
    by (simp add: dropWhile_eq_Nil_conv)
  finally show ?thesis by (simp add: trim_def)
qed

lemma startsWith_append: "startsWith (p @ t) p"
  by (simp add: startsWith_def)

text \<open>
  C1, as stated, gives the message about the \<open>Bearer \<close> prefix for every header that
  is present and does not start with it. An empty header value is present and does not
  start with the prefix, but \<open>!authHeader\<close> is true for it: the gate answers 401 with
  "cf-aig-authorization header is required".
\<close>

theorem validateAuth_empty_header_counterexample:
  "collect_logs mockGateway
   \<and> map_of [(''cf-aig-authorization'', ''''::string)] ''cf-aig-authorization'' = Some ''''
   \<and> \<not> startsWith '''' ''Bearer ''
   \<and> validateAuth mockGateway [(''cf-aig-authorization'', '''')] =
       Response 401 ''Unauthorized'' ''cf-aig-authorization header is required''
   \<and> validateAuth mockGateway [(''cf-aig-authorization'', '''')] \<noteq>
       Response 401 ''Unauthorized''
         (''cf-aig-authorization header must start with '' @ [CHR 0x22] @ ''Bearer '' @ [CHR 0x22])"
  by code_simp

text \<open>
  C1, amended. For every gateway record and header object: if \<open>collect_logs\<close> (the
  flag that stands for "requires authentication") is false the request is allowed; if it
  is true and \<open>cf-aig-authorization\<close> is absent or empty the gate answers 401
  "cf-aig-authorization header is required"; if the header is not empty and does not
  start with \<open>Bearer \<close> (compared exactly) it answers 401 with the message that the
  header must start with \<open>"Bearer "\<close>; if it starts with \<open>Bearer \<close> and the rest consists of
  white space only (or is empty) it answers 403 "Invalid authorization token";
  otherwise the request is allowed.
\<close>

theorem validateAuth_cases:
  "(\<not> collect_logs gw \<longrightarrow> validateAuth gw hs = Next)
   \<and> (collect_logs gw \<and> (map_of hs ''cf-aig-authorization'' = None
         \<or> map_of hs ''cf-aig-authorization'' = Some []) \<longrightarrow>
        validateAuth gw hs =
          Response 401 ''Unauthorized'' ''cf-aig-authorization header is required'')
   \<and> (\<forall>a. collect_logs gw \<and> map_of hs ''cf-aig-authorization'' = Some a \<and> a \<noteq> []
         \<and> \<not> startsWith a ''Bearer '' \<longrightarrow>
        validateAuth gw hs =
          Response 401 ''Unauthorized''
            (''cf-aig-authorization header must start with '' @ [CHR 0x22] @ ''Bearer ''
             @ [CHR 0x22]))
   \<and> (\<forall>token. collect_logs gw
         \<and> map_of hs ''cf-aig-authorization'' = Some (''Bearer '' @ token)
         \<and> (\<forall>c \<in> set token. isWhiteSpace c) \<longrightarrow>
        validateAuth gw hs = Response 403 ''Forbidden'' ''Invalid authorization token'')
   \<and> (\<forall>token. collect_logs gw
         \<and> map_of hs ''cf-aig-authorization'' = Some (''Bearer '' @ token)
         \<and> (\<exists>c \<in> set token. \<not> isWhiteSpace c) \<longrightarrow>
        validateAuth gw hs = Next)"
proof (intro conjI allI impI)
  assume "\<not> collect_logs gw"
  then show "validateAuth gw hs = Next" by (simp add: validateAuth_def)
next
  assume "collect_logs gw \<and> (map_of hs ''cf-aig-authorization'' = None
         \<or> map_of hs ''cf-aig-authorization'' = Some [])"
  then show "validateAuth gw hs =
          Response 401 ''Unauthorized'' ''cf-aig-authorization header is required''"
    unfolding validateAuth_def by auto
next
  fix a
  assume "collect_logs gw \<and> map_of hs ''cf-aig-authorization'' = Some a \<and> a \<noteq> []
         \<and> \<not> startsWith a ''Bearer ''"
  then show "validateAuth gw hs =
          Response 401 ''Unauthorized''
            (''cf-aig-authorization header must start with '' @ [CHR 0x22] @ ''Bearer ''
             @ [CHR 0x22])"
    unfolding validateAuth_def by simp
next
  fix token
  assume a: "collect_logs gw
         \<and> map_of hs ''cf-aig-authorization'' = Some (''Bearer '' @ token)
         \<and> (\<forall>c \<in> set token. isWhiteSpace c)"
  have s: "startsWith (''Bearer '' @ token) ''Bearer ''" by (rule startsWith_append)
  have t: "substring (''Bearer '' @ token) 7 = token" by (simp add: substring_def)
  have "trim token = []" using a by (simp add: trim_empty_iff)
  then show "validateAuth gw hs = Response 403 ''Forbidden'' ''Invalid authorization token''"
    unfolding validateAuth_def Let_def using a s t by simp
next
  fix token
  assume a: "collect_logs gw
         \<and> map_of hs ''cf-aig-authorization'' = Some (''Bearer '' @ token)
         \<and> (\<exists>c \<in> set token. \<not> isWhiteSpace c)"
  have s: "startsWith (''Bearer '' @ token) ''Bearer ''" by (rule startsWith_append)
  have t: "substring (''Bearer '' @ token) 7 = token" by (simp add: substring_def)
  have "trim token \<noteq> []" using a by (simp add: trim_empty_iff)
  moreover have "token \<noteq> []" using a by auto
  ultimately show "validateAuth gw hs = Next"
    unfolding validateAuth_def Let_def using a s t by simp
qed

theorem validateAuth_cases_witness:
  "\<not> collect_logs (mockGateway\<lparr>collect_logs := False\<rparr>)
   \<and> validateAuth (mockGateway\<lparr>collect_logs := False\<rparr>) [] = Next
   \<and> collect_logs mockGateway
   \<and> validateAuth mockGateway [] =
       Response 401 ''Unauthorized'' ''cf-aig-authorization header is required''
   \<and> validateAuth mockGateway [(''cf-aig-authorization'', ''InvalidFormat token123'')] =
       Response 401 ''Unauthorized''
         (''cf-aig-authorization header must start with '' @ [CHR 0x22] @ ''Bearer '' @ [CHR 0x22])
   \<and> validateAuth mockGateway [(''cf-aig-authorization'', ''Bearer '')] =
       Response 403 ''Forbidden'' ''Invalid authorization token''
   \<and> validateAuth mockGateway [(''cf-aig-authorization'', ''Bearer valid_token123'')] = Next"
proof -
  have h1: "\<not> collect_logs (mockGateway\<lparr>collect_logs := False\<rparr>)" by simp
  have c: "collect_logs mockGateway" by (simp add: mockGateway_def)
  have h2: "collect_logs mockGateway \<and> (map_of ([]::headers) ''cf-aig-authorization'' = None
      \<or> map_of ([]::headers) ''cf-aig-authorization'' = Some [])"
    using c by simp
  have h3: "collect_logs mockGateway
      \<and> map_of [(''cf-aig-authorization'', ''InvalidFormat token123'')] ''cf-aig-authorization''
          = Some ''InvalidFormat token123''
      \<and> ''InvalidFormat token123'' \<noteq> []
      \<and> \<not> startsWith ''InvalidFormat token123'' ''Bearer ''"
    using c by (simp add: startsWith_def)
  have h4: "collect_logs mockGateway
      \<and> map_of [(''cf-aig-authorization'', ''Bearer '')] ''cf-aig-authorization''
          = Some (''Bearer '' @ [])
      \<and> (\<forall>c \<in> set ([]::string). isWhiteSpace c)"
    using c by simp
  have n: "\<not> isWhiteSpace (CHR ''v'')" by code_simp
  have h5: "collect_logs mockGateway
      \<and> map_of [(''cf-aig-authorization'', ''Bearer valid_token123'')] ''cf-aig-authorization''
          = Some (''Bearer '' @ ''valid_token123'')
      \<and> (\<exists>c \<in> set ''valid_token123''. \<not> isWhiteSpace c)"
    using c n by simp
  have r1: "validateAuth (mockGateway\<lparr>collect_logs := False\<rparr>) [] = Next"
    using validateAuth_cases[of "mockGateway\<lparr>collect_logs := False\<rparr>" "[]"] h1 by blast
  have r2: "validateAuth mockGateway [] =
       Response 401 ''Unauthorized'' ''cf-aig-authorization header is required''"
    using validateAuth_cases[of mockGateway "[]"] h2 by blast
  have r3: "validateAuth mockGateway [(''cf-aig-authorization'', ''InvalidFormat token123'')] =
       Response 401 ''Unauthorized''
         (''cf-aig-authorization header must start with '' @ [CHR 0x22] @ ''Bearer '' @ [CHR 0x22])"
    using validateAuth_cases[of mockGateway
        "[(''cf-aig-authorization'', ''InvalidFormat token123'')]"] h3 by blast
  have r4: "validateAuth mockGateway [(''cf-aig-authorization'', ''Bearer '')] =
       Response 403 ''Forbidden'' ''Invalid authorization token''"
    using validateAuth_cases[of mockGateway "[(''cf-aig-authorization'', ''Bearer '')]"] h4
    by blast
  have r5: "validateAuth mockGateway [(''cf-aig-authorization'', ''Bearer valid_token123'')] = Next"
    using validateAuth_cases[of mockGateway
        "[(''cf-aig-authorization'', ''Bearer valid_token123'')]"] h5 by blast
  show ?thesis using h1 c r1 r2 r3 r4 r5 by blast
qed

section \<open>The gateway configuration cache\<close>

text \<open>
  C2. The time to live is five minutes (300000 ms). If the cache holds an entry for the
  id whose age is less than that, the entry's record is returned, nothing is fetched and
  the cache is unchanged. On a miss or an entry of age at least the time to live,
  \<open>getGateway\<close> is called exactly once, with the id. If it succeeds, the fetched record
  is returned and the cache holds it under the id, stamped with the current time, in
  place of any earlier entry. If it fails, a stale entry's record is returned as the
  result, and with no entry at all the result is \<open>null\<close>.
\<close>

theorem getGatewayConfig_contract:
  "cacheTTL = 300000
   \<and> (\<forall>e. cache this gatewayId = Some e \<and> now_check w - timestamp e < cacheTTL \<longrightarrow>
        getGatewayConfig w this gatewayId = (Some (gateway e), this, []))
   \<and> ((cache this gatewayId = None
         \<or> (\<exists>e. cache this gatewayId = Some e \<and> cacheTTL \<le> now_check w - timestamp e)) \<longrightarrow>
        snd (snd (getGatewayConfig w this gatewayId)) = [gatewayId])
   \<and> (\<forall>fetched. (cache this gatewayId = None
         \<or> (\<exists>e. cache this gatewayId = Some e \<and> cacheTTL \<le> now_check w - timestamp e))
        \<and> getGateway w gatewayId = Some fetched \<longrightarrow>
        getGatewayConfig w this gatewayId =
          (Some fetched,
           this\<lparr>cache := (cache this)
              (gatewayId \<mapsto> \<lparr>gateway = fetched, timestamp = now_store w\<rparr>)\<rparr>,
           [gatewayId]))
   \<and> (\<forall>e. cache this gatewayId = Some e \<and> cacheTTL \<le> now_check w - timestamp e
        \<and> getGateway w gatewayId = None \<longrightarrow>
        getGatewayConfig w this gatewayId = (Some (gateway e), this, [gatewayId]))
   \<and> (cache this gatewayId = None \<and> getGateway w gatewayId = None \<longrightarrow>
        getGatewayConfig w this gatewayId = (None, this, [gatewayId]))"
  unfolding getGatewayConfig_def Let_def
  by (auto simp: cacheTTL_def split: option.splits)

theorem getGatewayConfig_contract_witness:
  "getGatewayConfig
      \<lparr>now_check = 1000, getGateway = (\<lambda>i. Some mockGateway), now_store = 1005\<rparr>
      \<lparr>cache = Map.empty\<rparr> ''gateway123'' =
     (Some mockGateway,
      \<lparr>cache = [''gateway123'' \<mapsto> \<lparr>gateway = mockGateway, timestamp = 1005\<rparr>]\<rparr>,
      [''gateway123''])
   \<and> getGatewayConfig
      \<lparr>now_check = 2000, getGateway = (\<lambda>i. Some mockGateway), now_store = 2005\<rparr>
      \<lparr>cache = [''gateway123'' \<mapsto> \<lparr>gateway = mockGateway, timestamp = 1005\<rparr>]\<rparr>
      ''gateway123'' =
     (Some mockGateway,
      \<lparr>cache = [''gateway123'' \<mapsto> \<lparr>gateway = mockGateway, timestamp = 1005\<rparr>]\<rparr>,
      [])
   \<and> getGatewayConfig
      \<lparr>now_check = 400000, getGateway = (\<lambda>i. None), now_store = 400005\<rparr>
      \<lparr>cache = [''gateway123'' \<mapsto> \<lparr>gateway = mockGateway, timestamp = 1005\<rparr>]\<rparr>
      ''gateway123'' =
     (Some mockGateway,
      \<lparr>cache = [''gateway123'' \<mapsto> \<lparr>gateway = mockGateway, timestamp = 1005\<rparr>]\<rparr>,
      [''gateway123''])
   \<and> getGatewayConfig
      \<lparr>now_check = 1000, getGateway = (\<lambda>i. None), now_store = 1005\<rparr>
      \<lparr>cache = Map.empty\<rparr> ''nonexistent'' =
     (None, \<lparr>cache = Map.empty\<rparr>, [''nonexistent''])"
proof -
  let ?e = "\<lparr>gateway = mockGateway, timestamp = 1005\<rparr>"
  let ?s0 = "\<lparr>cache = Map.empty\<rparr> :: GatewayConfigService"
  let ?s1 = "\<lparr>cache = [''gateway123'' \<mapsto> ?e]\<rparr>"
  let ?w1 = "\<lparr>now_check = 1000, getGateway = (\<lambda>i. Some mockGateway), now_store = 1005\<rparr>"
  let ?w2 = "\<lparr>now_check = 2000, getGateway = (\<lambda>i. Some mockGateway), now_store = 2005\<rparr>"
  let ?w3 = "\<lparr>now_check = 400000, getGateway = (\<lambda>i. None), now_store = 400005\<rparr>"
  let ?w4 = "\<lparr>now_check = 1000, getGateway = (\<lambda>i. None), now_store = 1005\<rparr>"
  have h1: "(cache ?s0 ''gateway123'' = None
       \<or> (\<exists>e. cache ?s0 ''gateway123'' = Some e \<and> cacheTTL \<le> now_check ?w1 - timestamp e))
      \<and> getGateway ?w1 ''gateway123'' = Some mockGateway"
    by simp
  have h2: "cache ?s1 ''gateway123'' = Some ?e \<and> now_check ?w2 - timestamp ?e < cacheTTL"
    by (simp add: cacheTTL_def)
  have h3: "cache ?s1 ''gateway123'' = Some ?e \<and> cacheTTL \<le> now_check ?w3 - timestamp ?e
      \<and> getGateway ?w3 ''gateway123'' = None"
    by (simp add: cacheTTL_def)
  have h4: "cache ?s0 ''nonexistent'' = None \<and> getGateway ?w4 ''nonexistent'' = None"
    by simp
  have r1: "getGatewayConfig ?w1 ?s0 ''gateway123'' =
      (Some mockGateway,
       ?s0\<lparr>cache := (cache ?s0)(''gateway123'' \<mapsto>
          \<lparr>gateway = mockGateway, timestamp = now_store ?w1\<rparr>)\<rparr>,
       [''gateway123''])"
    using getGatewayConfig_contract[of ?s0 "''gateway123''" ?w1] h1 by blast
  have r2: "getGatewayConfig ?w2 ?s1 ''gateway123'' = (Some (gateway ?e), ?s1, [])"
    using getGatewayConfig_contract[of ?s1 "''gateway123''" ?w2] h2 by blast
  have r3: "getGatewayConfig ?w3 ?s1 ''gateway123'' = (Some (gateway ?e), ?s1, [''gateway123''])"
    using getGatewayConfig_contract[of ?s1 "''gateway123''" ?w3] h3 by blast
  have r4: "getGatewayConfig ?w4 ?s0 ''nonexistent'' = (None, ?s0, [''nonexistent''])"
    using getGatewayConfig_contract[of ?s0 "''nonexistent''" ?w4] h4 by blast
  show ?thesis
    using r1 r2 r3 r4 by simp
qed

text \<open>
  C9. When the fetch fails and an entry of age at least the time to live exists for the
  id, the stale record is returned and the service is left as it was: the entry, with
  its record and its original time stamp, is still the one stored. A later call for the
  same id, at any time at which the entry's age is at least the time to live, calls
  \<open>getGateway\<close> again.
\<close>

theorem getGatewayConfig_failed_refresh:
  assumes "cache this gatewayId = Some e"
    and "cacheTTL \<le> now_check w - timestamp e"
    and "getGateway w gatewayId = None"
  shows "fst (getGatewayConfig w this gatewayId) = Some (gateway e)
     \<and> fst (snd (getGatewayConfig w this gatewayId)) = this
     \<and> cache (fst (snd (getGatewayConfig w this gatewayId))) gatewayId = Some e
     \<and> (\<forall>w'. cacheTTL \<le> now_check w' - timestamp e \<longrightarrow>
          snd (snd (getGatewayConfig w' (fst (snd (getGatewayConfig w this gatewayId))) gatewayId))
            = [gatewayId])"
proof -
  have s: "getGatewayConfig w this gatewayId = (Some (gateway e), this, [gatewayId])"
    using assms unfolding getGatewayConfig_def Let_def by simp
  have "snd (snd (getGatewayConfig w' this gatewayId)) = [gatewayId]"
    if "cacheTTL \<le> now_check w' - timestamp e" for w'
    using that assms(1) unfolding getGatewayConfig_def Let_def
    by (simp split: option.splits)
  then show ?thesis using s assms(1) by simp
qed

theorem getGatewayConfig_failed_refresh_witness:
  "cache \<lparr>cache = [''gateway123'' \<mapsto> \<lparr>gateway = mockGateway, timestamp = 1005\<rparr>]\<rparr>
      ''gateway123'' = Some \<lparr>gateway = mockGateway, timestamp = 1005\<rparr>
   \<and> cacheTTL \<le> 400000 - 1005
   \<and> fst (snd (getGatewayConfig
        \<lparr>now_check = 400000, getGateway = (\<lambda>i. None), now_store = 400005\<rparr>
        \<lparr>cache = [''gateway123'' \<mapsto> \<lparr>gateway = mockGateway, timestamp = 1005\<rparr>]\<rparr>
        ''gateway123'')) =
      \<lparr>cache = [''gateway123'' \<mapsto> \<lparr>gateway = mockGateway, timestamp = 1005\<rparr>]\<rparr>
   \<and> snd (snd (getGatewayConfig
        \<lparr>now_check = 500000, getGateway = (\<lambda>i. Some mockGateway), now_store = 500005\<rparr>
        (fst (snd (getGatewayConfig
           \<lparr>now_check = 400000, getGateway = (\<lambda>i. None), now_store = 400005\<rparr>
           \<lparr>cache = [''gateway123'' \<mapsto> \<lparr>gateway = mockGateway, timestamp = 1005\<rparr>]\<rparr>
           ''gateway123'')))
        ''gateway123'')) = [''gateway123'']"
proof -
  let ?e = "\<lparr>gateway = mockGateway, timestamp = 1005\<rparr>"
  let ?s1 = "\<lparr>cache = [''gateway123'' \<mapsto> ?e]\<rparr>"
  let ?w3 = "\<lparr>now_check = 400000, getGateway = (\<lambda>i. None), now_store = 400005\<rparr>"
  let ?w5 = "\<lparr>now_check = 500000, getGateway = (\<lambda>i. Some mockGateway), now_store = 500005\<rparr>"
  have a: "cache ?s1 ''gateway123'' = Some ?e" by simp
  have b: "cacheTTL \<le> now_check ?w3 - timestamp ?e" by (simp add: cacheTTL_def)
  have c: "getGateway ?w3 ''gateway123'' = None" by simp
  have d: "cacheTTL \<le> now_check ?w5 - timestamp ?e" by (simp add: cacheTTL_def)
  have t: "cacheTTL \<le> 400000 - 1005" by (simp add: cacheTTL_def)
  note r = getGatewayConfig_failed_refresh[OF a b c]
  have r2: "fst (snd (getGatewayConfig ?w3 ?s1 ''gateway123'')) = ?s1"
    using r by blast
  have r4: "snd (snd (getGatewayConfig ?w5
        (fst (snd (getGatewayConfig ?w3 ?s1 ''gateway123''))) ''gateway123'')) = [''gateway123'']"
    using r d by blast
  show ?thesis using a t r2 r4 by blast
qed

end
